theory Spec2Isabelle
  imports Complex_Main
begin

section \<open>Values of the script\<close>

text \<open>
  The program is \<^verbatim>\<open>generate_word.py\<close>: a straight-line script of calls into an image
  library and a document library. A Python \<^verbatim>\<open>str\<close> is a sequence of Unicode code
  points, so it is modelled as a list of code points; the literals of the script that are
  not ASCII are written out as code points.
\<close>

type_synonym ustr = "nat list"

definition ascii :: "string \<Rightarrow> ustr" where
  "ascii cs = map of_char cs"

type_synonym path = ustr
type_synonym colour = "int \<times> int \<times> int"
type_synonym box = "int \<times> int \<times> int \<times> int"

text \<open>
  An image is kept as the library calls describe it: mode, size, the colour it was created
  with and the line segments drawn onto it, oldest first. The pixels a wide line covers
  are decided inside the image library and are not modelled.
\<close>

record line_seg =
  xy :: box
  fill :: colour
  width :: int

record image =
  mode :: ustr
  size_px :: "int \<times> int"
  background :: colour
  segments :: "line_seg list"

text \<open>
  The document is the ordered list of its top-level blocks. A run carries its text and the
  tri-state bold attribute of the document library (\<open>None\<close> is "inherit").
\<close>

record run =
  rtext :: ustr
  bold :: "bool option"

datatype block =
    Heading int "run list"
  | Paragraph "ustr option" "run list"
  | Picture image int

record document =
  styles :: "ustr list"
  blocks :: "block list"

datatype file_content = ImageFile image | DocFile "block list"

datatype exn =
    LibFailure nat
  | NameError
  | ValueError
  | KeyError ustr
  | FileNotFoundError path
  | UnrecognizedImageError path

datatype draw = DrawOnImg

datatype event =
    E_import ustr
  | E_Image_new
  | E_Draw
  | E_line
  | E_img_save path
  | E_Document
  | E_add_heading
  | E_add_paragraph "ustr option"
  | E_add_run
  | E_add_picture path
  | E_doc_save path
  | E_print

text \<open>
  The state of a run: the file system, the lines the script has printed (one entry per
  \<^verbatim>\<open>print\<close> that returned), the module's variables \<^verbatim>\<open>img\<close>, \<^verbatim>\<open>d\<close>, \<^verbatim>\<open>doc\<close> and \<^verbatim>\<open>p\<close> (\<open>None\<close> while unbound),
  and the log of the statements completed so far. \<^verbatim>\<open>p\<close> is a reference into the
  document: the index of the block it denotes.
\<close>

record state =
  fs :: "path \<rightharpoonup> file_content"
  stdout :: "ustr list"
  img :: "image option"
  d :: "draw option"
  doc :: "document option"
  p :: "nat option"
  trace :: "event list"

text \<open>
  What a run cannot see in the script: \<open>fault k\<close> says that the statement number \<open>k\<close>
  (counted from 0 in execution order) fails inside the library for a reason of the
  environment (a missing module, no memory, an unwritable directory, a broken template);
  \<open>default_styles\<close> are the style names of the template a new document starts from;
  \<open>sink\<close> is what standard output is connected to. A printed line arrives when the
  sink is open. With \<open>Sink_flush_fails\<close> the line is accepted into the buffer and lost
  when the interpreter flushes at exit, which turns the exit status into 120; with
  \<open>Sink_absent\<close> there is no standard output at all and \<^verbatim>\<open>print\<close> returns without
  writing. A \<^verbatim>\<open>print\<close> that raises is a fault of its statement.
\<close>

datatype sink = Sink_open | Sink_flush_fails | Sink_absent

record env =
  fault :: "nat \<Rightarrow> bool"
  default_styles :: "ustr list"
  sink :: sink

type_synonym stmt = "env \<Rightarrow> state \<Rightarrow> exn + state"

section \<open>The library calls\<close>

text \<open>
  The two libraries are not part of the repository; each call is modelled by what its
  documentation says it does to the objects the script holds. A call that completes is
  logged. Before it does anything, a call fails with \<open>LibFailure k\<close> when the
  environment says so; the failures the model decides itself are a name that is not bound
  yet (\<open>NameError\<close>), a heading level outside 0..9 (\<open>ValueError\<close>), a style name
  the document does not have (\<open>KeyError\<close>), and a picture file that is missing or is
  not an image. The state reported for a run that failed is the one in which the failing
  statement was entered.
\<close>

definition lib_call :: "event \<Rightarrow> (state \<Rightarrow> exn + state) \<Rightarrow> stmt" where
  "lib_call ev f e s =
     (if fault e (length (trace s)) then Inl (LibFailure (length (trace s)))
      else (case f s of
              Inl x \<Rightarrow> Inl x
            | Inr s' \<Rightarrow> Inr (s'\<lparr>trace := trace s @ [ev]\<rparr>)))"

definition import_from :: "ustr \<Rightarrow> stmt" where
  "import_from m = lib_call (E_import m) (\<lambda>s. Inr s)"

text \<open>
  \<^verbatim>\<open>Inches(x)\<close> is a length in English Metric Units, 914400 to the inch, truncated
  towards zero as Python's \<^verbatim>\<open>int\<close> does.
\<close>

definition Inches :: "rat \<Rightarrow> int" where
  "Inches x = (if 0 \<le> x then \<lfloor>x * 914400\<rfloor> else \<lceil>x * 914400\<rceil>)"

text \<open>
  \<^verbatim>\<open>img = Image.new(mode, size, color)\<close>, \<^verbatim>\<open>d = ImageDraw.Draw(img)\<close>,
  \<^verbatim>\<open>d.line(xy, fill, width)\<close> and \<^verbatim>\<open>img.save(path)\<close>. The drawing context draws
  onto the image held in \<^verbatim>\<open>img\<close>; saving writes the image to the path, replacing what
  was there.
\<close>

definition Image_new :: "ustr \<Rightarrow> int \<times> int \<Rightarrow> colour \<Rightarrow> stmt" where
  "Image_new m sz c =
     lib_call E_Image_new
       (\<lambda>s. Inr (s\<lparr>img := Some \<lparr>mode = m, size_px = sz, background = c, segments = []\<rparr>\<rparr>))"

definition ImageDraw_Draw :: stmt where
  "ImageDraw_Draw =
     lib_call E_Draw
       (\<lambda>s. case img s of None \<Rightarrow> Inl NameError | Some _ \<Rightarrow> Inr (s\<lparr>d := Some DrawOnImg\<rparr>))"

definition line :: "box \<Rightarrow> colour \<Rightarrow> int \<Rightarrow> stmt" where
  "line b c w =
     lib_call E_line
       (\<lambda>s. case d s of
               None \<Rightarrow> Inl NameError
             | Some DrawOnImg \<Rightarrow>
                 (case img s of
                    None \<Rightarrow> Inl NameError
                  | Some i \<Rightarrow>
                      Inr (s\<lparr>img := Some (i\<lparr>segments :=
                              segments i @ [\<lparr>xy = b, fill = c, width = w\<rparr>]\<rparr>)\<rparr>)))"

definition img_save :: "path \<Rightarrow> stmt" where
  "img_save f =
     lib_call (E_img_save f)
       (\<lambda>s. case img s of
               None \<Rightarrow> Inl NameError
             | Some i \<Rightarrow> Inr (s\<lparr>fs := (fs s)(f \<mapsto> ImageFile i)\<rparr>))"

text \<open>
  \<^verbatim>\<open>doc = Document()\<close> starts from the default template: its styles, and no block.
  \<^verbatim>\<open>doc.add_heading(text, level)\<close> rejects a level outside 0..9, names the style
  \<^verbatim>\<open>Title\<close> for level 0 and \<^verbatim>\<open>Heading n\<close> for level n, and appends the heading
  through the same style lookup as a paragraph. \<^verbatim>\<open>doc.add_paragraph(text, style)\<close>
  appends a paragraph with one run (none for an empty text) and looks the style up by
  name when one is given. \<^verbatim>\<open>p = doc.add_paragraph(...)\<close> also binds \<^verbatim>\<open>p\<close> to the new
  block. \<^verbatim>\<open>p.add_run(text).bold = b\<close> appends a run to the block \<^verbatim>\<open>p\<close> denotes and sets
  its bold attribute. \<^verbatim>\<open>doc.add_picture(path, width)\<close> reads the image file and appends
  it at the given width. \<^verbatim>\<open>doc.save(path)\<close> writes the blocks to the path.
\<close>

definition Document :: stmt where
  "Document e =
     lib_call E_Document
       (\<lambda>s. Inr (s\<lparr>doc := Some \<lparr>styles = default_styles e, blocks = []\<rparr>\<rparr>)) e"

definition runs_of :: "ustr \<Rightarrow> run list" where
  "runs_of t = (if t = [] then [] else [\<lparr>rtext = t, bold = None\<rparr>])"

definition heading_style :: "int \<Rightarrow> ustr" where
  "heading_style level =
     (if level = 0 then ascii ''Title'' else ascii ''Heading '' @ [48 + nat level])"

definition add_heading :: "ustr \<Rightarrow> int \<Rightarrow> stmt" where
  "add_heading t level =
     lib_call E_add_heading
       (\<lambda>s. case doc s of
               None \<Rightarrow> Inl NameError
             | Some dc \<Rightarrow>
                 if 0 \<le> level \<and> level \<le> 9
                 then (if heading_style level \<in> set (styles dc)
                       then Inr (s\<lparr>doc := Some (dc\<lparr>blocks :=
                                     blocks dc @ [Heading level (runs_of t)]\<rparr>)\<rparr>)
                       else Inl (KeyError (heading_style level)))
                 else Inl ValueError)"

definition append_paragraph :: "ustr \<Rightarrow> ustr option \<Rightarrow> state \<Rightarrow> exn + state" where
  "append_paragraph t st s =
     (case doc s of
        None \<Rightarrow> Inl NameError
      | Some dc \<Rightarrow>
          (case st of
             None \<Rightarrow> Inr (s\<lparr>doc := Some (dc\<lparr>blocks := blocks dc @ [Paragraph None (runs_of t)]\<rparr>)\<rparr>)
           | Some n \<Rightarrow>
               if n \<in> set (styles dc)
               then Inr (s\<lparr>doc := Some (dc\<lparr>blocks := blocks dc @ [Paragraph (Some n) (runs_of t)]\<rparr>)\<rparr>)
               else Inl (KeyError n)))"

definition add_paragraph :: "ustr \<Rightarrow> ustr option \<Rightarrow> stmt" where
  "add_paragraph t st = lib_call (E_add_paragraph st) (append_paragraph t st)"

definition p_add_paragraph :: "ustr \<Rightarrow> ustr option \<Rightarrow> stmt" where
  "p_add_paragraph t st =
     lib_call (E_add_paragraph st)
       (\<lambda>s. case append_paragraph t st s of
               Inl x \<Rightarrow> Inl x
             | Inr s' \<Rightarrow>
                 (case doc s' of
                    None \<Rightarrow> Inl NameError
                  | Some dc \<Rightarrow> Inr (s'\<lparr>p := Some (length (blocks dc) - 1)\<rparr>)))"

fun block_add_run :: "run \<Rightarrow> block \<Rightarrow> block option" where
  "block_add_run r (Heading l rs) = Some (Heading l (rs @ [r]))"
| "block_add_run r (Paragraph st rs) = Some (Paragraph st (rs @ [r]))"
| "block_add_run r (Picture i w) = None"

definition p_add_run_bold :: "ustr \<Rightarrow> bool \<Rightarrow> stmt" where
  "p_add_run_bold t b =
     lib_call E_add_run
       (\<lambda>s. case p s of
               None \<Rightarrow> Inl NameError
             | Some k \<Rightarrow>
                 (case doc s of
                    None \<Rightarrow> Inl NameError
                  | Some dc \<Rightarrow>
                      if k < length (blocks dc)
                      then (case block_add_run \<lparr>rtext = t, bold = Some b\<rparr> (blocks dc ! k) of
                              None \<Rightarrow> Inl ValueError
                            | Some bl \<Rightarrow>
                                Inr (s\<lparr>doc := Some (dc\<lparr>blocks := (blocks dc)[k := bl]\<rparr>)\<rparr>))
                      else Inl ValueError))"

definition add_picture :: "path \<Rightarrow> int \<Rightarrow> stmt" where
  "add_picture f w =
     lib_call (E_add_picture f)
       (\<lambda>s. case doc s of
               None \<Rightarrow> Inl NameError
             | Some dc \<Rightarrow>
                 (case fs s f of
                    None \<Rightarrow> Inl (FileNotFoundError f)
                  | Some (DocFile _) \<Rightarrow> Inl (UnrecognizedImageError f)
                  | Some (ImageFile i) \<Rightarrow>
                      Inr (s\<lparr>doc := Some (dc\<lparr>blocks := blocks dc @ [Picture i w]\<rparr>)\<rparr>)))"

definition doc_save :: "path \<Rightarrow> stmt" where
  "doc_save f =
     lib_call (E_doc_save f)
       (\<lambda>s. case doc s of
               None \<Rightarrow> Inl NameError
             | Some dc \<Rightarrow> Inr (s\<lparr>fs := (fs s)(f \<mapsto> DocFile (blocks dc))\<rparr>))"

text \<open>
  \<^verbatim>\<open>print(line)\<close> is a call like the others: it can raise (a closed pipe, a full
  device written unbuffered), and when it returns the line counts as printed. Whether a
  printed line arrives is decided by the sink, below.
\<close>

definition print :: "ustr \<Rightarrow> stmt" where
  "print t = lib_call E_print (\<lambda>s. Inr (s\<lparr>stdout := stdout s @ [t]\<rparr>))"

section \<open>The script\<close>

definition icon_path :: path where
  "icon_path = ascii ''test_icon.png''"

definition file_name :: path where
  "file_name = ascii ''Test_Document.docx''"

definition script :: "stmt list" where
  "script =
    [import_from (ascii ''docx''),
     import_from (ascii ''docx.shared''),
     import_from (ascii ''PIL''),
     Image_new (ascii ''RGB'') (100, 100) (73, 109, 137),
     ImageDraw_Draw,
     line (20, 50, 80, 50) (255, 255, 0) 5,
     line (50, 20, 50, 80) (255, 255, 0) 5,
     img_save icon_path,
     Document,
     add_heading (ascii ''YUUKA '' @ [0x6D4B, 0x8BD5, 0x6587, 0x6863]) 0,
     p_add_paragraph
       [0x8001, 0x5E08, 0xFF0C, 0x8FD9, 0x662F, 0x4E3A, 0x60A8, 0x751F, 0x6210, 0x7684,
        0x6D4B, 0x8BD5, 0x6587, 0x6863, 0x3002] None,
     p_add_run_bold
       (ascii '' '' @ [0x8FD9, 0x662F, 0x4E00, 0x4E2A, 0x52A0, 0x7C97, 0x7684, 0x6D4B,
        0x8BD5, 0x6587, 0x672C, 0x3002]) True,
     add_heading [0x529F, 0x80FD, 0x6F14, 0x793A] 1,
     add_paragraph
       [0x4E0B, 0x9762, 0x5C55, 0x793A, 0x4E86, 0x5982, 0x4F55, 0x63D2, 0x5165, 0x56FE,
        0x6807, 0xFF1A] (Some (ascii ''List Bullet'')),
     add_picture icon_path (Inches 1.0),
     add_paragraph
       ([0x6587, 0x6863, 0x751F, 0x6210, 0x6982, 0x7387, 0xFF1A] @ ascii ''100%'')
       (Some (ascii ''Normal'')),
     add_paragraph
       [0x9A8C, 0x7B97, 0x7ED3, 0x679C, 0xFF1A, 0x4E00, 0x5207, 0x6B63, 0x5E38, 0x3002]
       (Some (ascii ''Normal'')),
     doc_save file_name,
     print (ascii ''Successfully generated '' @ file_name)]"

text \<open>
  Statements run in order; the first exception ends the run, since the script has no
  \<^verbatim>\<open>try\<close>. The result is the exception, if any, and the state reached when the run
  ended.
\<close>

fun exec :: "env \<Rightarrow> stmt list \<Rightarrow> state \<Rightarrow> exn option \<times> state" where
  "exec e [] s = (None, s)"
| "exec e (c # cs) s =
     (case c e s of
        Inl x \<Rightarrow> (Some x, s)
      | Inr s' \<Rightarrow> exec e cs s')"

definition init :: "(path \<rightharpoonup> file_content) \<Rightarrow> state" where
  "init fs0 = \<lparr>fs = fs0, stdout = [], img = None, d = None, doc = None, p = None, trace = []\<rparr>"

definition run_script :: "env \<Rightarrow> (path \<rightharpoonup> file_content) \<Rightarrow> exn option \<times> state" where
  "run_script e fs0 = exec e script (init fs0)"

text \<open>
  What arrives on standard output, and the exit status of the process: 1 after an
  unhandled exception; otherwise 0, or 120 when printed lines are lost in the flush at
  exit.
\<close>

definition delivered :: "env \<Rightarrow> state \<Rightarrow> ustr list" where
  "delivered e s = (case sink e of Sink_open \<Rightarrow> stdout s | _ \<Rightarrow> [])"

definition exit_status :: "env \<Rightarrow> exn option \<times> state \<Rightarrow> nat" where
  "exit_status e r =
     (case fst r of
        Some _ \<Rightarrow> 1
      | None \<Rightarrow> (if sink e = Sink_flush_fails \<and> stdout (snd r) \<noteq> [] then 120 else 0))"

section \<open>Vocabulary of the properties\<close>

text \<open>
  An environment in which nothing fails: no library fault, a template that has the four
  styles the run looks up, and an open standard output. In the second environment only
  statement 18, the \<^verbatim>\<open>print\<close>, fails.
\<close>

definition quiet_env :: env where
  "quiet_env =
     \<lparr>fault = (\<lambda>k. False),
        default_styles = [ascii ''Normal'', ascii ''Title'', ascii ''Heading 1'',
                          ascii ''List Bullet''],
        sink = Sink_open\<rparr>"

definition print_fails_env :: env where
  "print_fails_env =
     \<lparr>fault = (\<lambda>k. k = 18),
        default_styles = [ascii ''Normal'', ascii ''Title'', ascii ''Heading 1'',
                          ascii ''List Bullet''],
        sink = Sink_open\<rparr>"

text \<open>
  Which logged statements append a block to the document, which serialize it, which write
  a file, and which style argument a statement passed.
\<close>

fun doc_append :: "event \<Rightarrow> bool" where
  "doc_append E_add_heading = True"
| "doc_append (E_add_paragraph st) = True"
| "doc_append (E_add_picture f) = True"
| "doc_append ev = False"

fun doc_serialize :: "event \<Rightarrow> bool" where
  "doc_serialize (E_doc_save f) = True"
| "doc_serialize ev = False"

fun file_written :: "event \<Rightarrow> path option" where
  "file_written (E_img_save f) = Some f"
| "file_written (E_doc_save f) = Some f"
| "file_written ev = None"

fun style_passed :: "event \<Rightarrow> ustr option" where
  "style_passed (E_add_paragraph st) = st"
| "style_passed ev = None"

text \<open>The texts of the runs of a block, in order.\<close>

fun block_texts :: "block \<Rightarrow> ustr list" where
  "block_texts (Heading l rs) = map rtext rs"
| "block_texts (Paragraph st rs) = map rtext rs"
| "block_texts (Picture i w) = []"

text \<open>
  A monitor over a log: every statement that embeds a picture from a path comes after a
  statement that saved an image to that path.
\<close>

fun embeds_after_save :: "path list \<Rightarrow> event list \<Rightarrow> bool" where
  "embeds_after_save saved [] = True"
| "embeds_after_save saved (E_img_save f # evs) = embeds_after_save (f # saved) evs"
| "embeds_after_save saved (E_add_picture f # evs) =
     (f \<in> set saved \<and> embeds_after_save saved evs)"
| "embeds_after_save saved (ev # evs) = embeds_after_save saved evs"

text \<open>
  Plane geometry of the segments handed to \<^verbatim>\<open>d.line\<close>, on integer coordinates: a point
  lies on a segment when it is collinear with the end points and inside their bounding
  box; \<open>twice_mid\<close> is twice the midpoint and \<open>len_sq\<close> the squared length, so that both
  stay integers.
\<close>

fun on_segment :: "box \<Rightarrow> int \<times> int \<Rightarrow> bool" where
  "on_segment (x0, y0, x1, y1) (x, y) =
     ((x1 - x0) * (y - y0) = (y1 - y0) * (x - x0)
      \<and> min x0 x1 \<le> x \<and> x \<le> max x0 x1 \<and> min y0 y1 \<le> y \<and> y \<le> max y0 y1)"

fun in_canvas :: "int \<times> int \<Rightarrow> int \<times> int \<Rightarrow> bool" where
  "in_canvas (w, h) (x, y) = (0 \<le> x \<and> x < w \<and> 0 \<le> y \<and> y < h)"

fun horizontal :: "box \<Rightarrow> bool" where
  "horizontal (x0, y0, x1, y1) = (y0 = y1 \<and> x0 \<noteq> x1)"

fun vertical :: "box \<Rightarrow> bool" where
  "vertical (x0, y0, x1, y1) = (x0 = x1 \<and> y0 \<noteq> y1)"

fun dot :: "box \<Rightarrow> box \<Rightarrow> int" where
  "dot (a0, b0, a1, b1) (x0, y0, x1, y1) = (a1 - a0) * (x1 - x0) + (b1 - b0) * (y1 - y0)"

fun twice_mid :: "box \<Rightarrow> int \<times> int" where
  "twice_mid (x0, y0, x1, y1) = (x0 + x1, y0 + y1)"

fun len_sq :: "box \<Rightarrow> int" where
  "len_sq (x0, y0, x1, y1) = (x1 - x0) * (x1 - x0) + (y1 - y0) * (y1 - y0)"

section \<open>Every run of the script\<close>

lemmas stmt_defs = import_from_def Image_new_def ImageDraw_Draw_def line_def img_save_def
  Document_def add_heading_def append_paragraph_def add_paragraph_def p_add_paragraph_def
  p_add_run_bold_def add_picture_def doc_save_def print_def lib_call_def runs_of_def
  heading_style_def

lemmas run_defs = run_script_def script_def init_def stmt_defs ascii_def icon_path_def
  file_name_def Inches_def

text \<open>A run of two pieces of a script is the run of the first, then of the second.\<close>

lemma exec_append:
  "exec e (cs @ ds) s =
     (case exec e cs s of (None, s') \<Rightarrow> exec e ds s' | (Some x, s') \<Rightarrow> (Some x, s'))"
  by (induction cs arbitrary: s) (auto split: sum.splits)

text \<open>The state of a run that reached the end of the script, whatever the environment.\<close>

lemma run_complete_aux:
  "(case run_script e fs0 of (x, s) \<Rightarrow> x = None \<longrightarrow> s =
     \<lparr>fs = fs0(icon_path \<mapsto> ImageFile
             \<lparr>mode = ascii ''RGB'', size_px = (100, 100), background = (73, 109, 137),
                segments = [\<lparr>xy = (20, 50, 80, 50), fill = (255, 255, 0), width = 5\<rparr>,
                            \<lparr>xy = (50, 20, 50, 80), fill = (255, 255, 0), width = 5\<rparr>]\<rparr>,
           file_name \<mapsto> DocFile
             [Heading 0
                [\<lparr>rtext = ascii ''YUUKA '' @ [0x6D4B, 0x8BD5, 0x6587, 0x6863], bold = None\<rparr>],
              Paragraph None
                [\<lparr>rtext = [0x8001, 0x5E08, 0xFF0C, 0x8FD9, 0x662F, 0x4E3A, 0x60A8, 0x751F,
                           0x6210, 0x7684, 0x6D4B, 0x8BD5, 0x6587, 0x6863, 0x3002],
                   bold = None\<rparr>,
                 \<lparr>rtext = ascii '' '' @ [0x8FD9, 0x662F, 0x4E00, 0x4E2A, 0x52A0, 0x7C97,
                           0x7684, 0x6D4B, 0x8BD5, 0x6587, 0x672C, 0x3002],
                   bold = Some True\<rparr>],
              Heading 1 [\<lparr>rtext = [0x529F, 0x80FD, 0x6F14, 0x793A], bold = None\<rparr>],
              Paragraph (Some (ascii ''List Bullet''))
                [\<lparr>rtext = [0x4E0B, 0x9762, 0x5C55, 0x793A, 0x4E86, 0x5982, 0x4F55, 0x63D2,
                           0x5165, 0x56FE, 0x6807, 0xFF1A],
                   bold = None\<rparr>],
              Picture
                \<lparr>mode = ascii ''RGB'', size_px = (100, 100), background = (73, 109, 137),
                   segments = [\<lparr>xy = (20, 50, 80, 50), fill = (255, 255, 0), width = 5\<rparr>,
                               \<lparr>xy = (50, 20, 50, 80), fill = (255, 255, 0), width = 5\<rparr>]\<rparr>
                914400,
              Paragraph (Some (ascii ''Normal''))
                [\<lparr>rtext = [0x6587, 0x6863, 0x751F, 0x6210, 0x6982, 0x7387, 0xFF1A]
                           @ ascii ''100%'',
                   bold = None\<rparr>],
              Paragraph (Some (ascii ''Normal''))
                [\<lparr>rtext = [0x9A8C, 0x7B97, 0x7ED3, 0x679C, 0xFF1A, 0x4E00, 0x5207, 0x6B63,
                           0x5E38, 0x3002],
                   bold = None\<rparr>]]),
      stdout = [ascii ''Successfully generated Test_Document.docx''],
      img = Some
             \<lparr>mode = ascii ''RGB'', size_px = (100, 100), background = (73, 109, 137),
                segments = [\<lparr>xy = (20, 50, 80, 50), fill = (255, 255, 0), width = 5\<rparr>,
                            \<lparr>xy = (50, 20, 50, 80), fill = (255, 255, 0), width = 5\<rparr>]\<rparr>,
      d = Some DrawOnImg,
      doc = Some \<lparr>styles = default_styles e, blocks =
             [Heading 0
                [\<lparr>rtext = ascii ''YUUKA '' @ [0x6D4B, 0x8BD5, 0x6587, 0x6863], bold = None\<rparr>],
              Paragraph None
                [\<lparr>rtext = [0x8001, 0x5E08, 0xFF0C, 0x8FD9, 0x662F, 0x4E3A, 0x60A8, 0x751F,
                           0x6210, 0x7684, 0x6D4B, 0x8BD5, 0x6587, 0x6863, 0x3002],
                   bold = None\<rparr>,
                 \<lparr>rtext = ascii '' '' @ [0x8FD9, 0x662F, 0x4E00, 0x4E2A, 0x52A0, 0x7C97,
                           0x7684, 0x6D4B, 0x8BD5, 0x6587, 0x672C, 0x3002],
                   bold = Some True\<rparr>],
              Heading 1 [\<lparr>rtext = [0x529F, 0x80FD, 0x6F14, 0x793A], bold = None\<rparr>],
              Paragraph (Some (ascii ''List Bullet''))
                [\<lparr>rtext = [0x4E0B, 0x9762, 0x5C55, 0x793A, 0x4E86, 0x5982, 0x4F55, 0x63D2,
                           0x5165, 0x56FE, 0x6807, 0xFF1A],
                   bold = None\<rparr>],
              Picture
                \<lparr>mode = ascii ''RGB'', size_px = (100, 100), background = (73, 109, 137),
                   segments = [\<lparr>xy = (20, 50, 80, 50), fill = (255, 255, 0), width = 5\<rparr>,
                               \<lparr>xy = (50, 20, 50, 80), fill = (255, 255, 0), width = 5\<rparr>]\<rparr>
                914400,
              Paragraph (Some (ascii ''Normal''))
                [\<lparr>rtext = [0x6587, 0x6863, 0x751F, 0x6210, 0x6982, 0x7387, 0xFF1A]
                           @ ascii ''100%'',
                   bold = None\<rparr>],
              Paragraph (Some (ascii ''Normal''))
                [\<lparr>rtext = [0x9A8C, 0x7B97, 0x7ED3, 0x679C, 0xFF1A, 0x4E00, 0x5207, 0x6B63,
                           0x5E38, 0x3002],
                   bold = None\<rparr>]]\<rparr>,
      p = Some 1,
      trace = [E_import (ascii ''docx''), E_import (ascii ''docx.shared''),
               E_import (ascii ''PIL''), E_Image_new, E_Draw, E_line, E_line,
               E_img_save icon_path, E_Document, E_add_heading, E_add_paragraph None,
               E_add_run, E_add_heading, E_add_paragraph (Some (ascii ''List Bullet'')),
               E_add_picture icon_path, E_add_paragraph (Some (ascii ''Normal'')),
               E_add_paragraph (Some (ascii ''Normal'')), E_doc_save file_name, E_print]\<rparr>)"
  by (simp add: run_defs)

lemmas run_complete = run_complete_aux [unfolded prod.case_eq_if, rule_format]

text \<open>
  When a run reaches the end: none of the 19 statements met a fault, and the template has
  the four styles the run looks up.
\<close>

lemma nineteen:
  "(19::nat) = Suc (Suc (Suc (Suc (Suc (Suc (Suc (Suc (Suc (Suc (Suc (Suc (Suc (Suc (Suc
     (Suc (Suc (Suc (Suc 0))))))))))))))))))"
  by simp

lemma run_completes_iff:
  "fst (run_script e fs0) = None \<longleftrightarrow>
     (\<forall>k<19. \<not> fault e k) \<and> ascii ''Title'' \<in> set (default_styles e)
       \<and> ascii ''Heading 1'' \<in> set (default_styles e)
       \<and> ascii ''List Bullet'' \<in> set (default_styles e)
       \<and> ascii ''Normal'' \<in> set (default_styles e)"
  unfolding nineteen All_less_Suc
  by (simp add: run_defs)

text \<open>
  A run that ended with an exception: nothing was printed, the run stopped at the
  statement that failed, and the exception is a fault of that statement or the lookup of
  one of the four style names. The document has been saved by then only when the
  statement that failed is the \<^verbatim>\<open>print\<close>.
\<close>

lemma run_failed_aux:
  "(case run_script e fs0 of (x, s) \<Rightarrow> x \<noteq> None \<longrightarrow>
      stdout s = [] \<and> length (trace s) < 19
      \<and> (E_doc_save file_name \<in> set (trace s) \<longleftrightarrow> length (trace s) = 18)
      \<and> (E_doc_save file_name \<in> set (trace s) \<longleftrightarrow> x = Some (LibFailure 18))
      \<and> (x = Some (LibFailure (length (trace s))) \<and> fault e (length (trace s))
         \<or> x = Some (KeyError (ascii ''Title''))
             \<and> ascii ''Title'' \<notin> set (default_styles e)
         \<or> x = Some (KeyError (ascii ''Heading 1''))
             \<and> ascii ''Heading 1'' \<notin> set (default_styles e)
         \<or> x = Some (KeyError (ascii ''List Bullet''))
             \<and> ascii ''List Bullet'' \<notin> set (default_styles e)
         \<or> x = Some (KeyError (ascii ''Normal''))
             \<and> ascii ''Normal'' \<notin> set (default_styles e)))"
  by (simp add: run_defs)

lemmas run_failed = run_failed_aux [unfolded prod.case_eq_if, rule_format]

text \<open>The log of any run is an initial piece of the log of a complete run.\<close>

lemma run_trace_aux:
  "(case run_script e fs0 of (x, s) \<Rightarrow>
      trace s = take (length (trace s))
              [E_import (ascii ''docx''), E_import (ascii ''docx.shared''),
               E_import (ascii ''PIL''), E_Image_new, E_Draw, E_line, E_line,
               E_img_save icon_path, E_Document, E_add_heading, E_add_paragraph None,
               E_add_run, E_add_heading, E_add_paragraph (Some (ascii ''List Bullet'')),
               E_add_picture icon_path, E_add_paragraph (Some (ascii ''Normal'')),
               E_add_paragraph (Some (ascii ''Normal'')), E_doc_save file_name, E_print])"
  by (simp add: run_defs)

lemmas run_trace = run_trace_aux [unfolded prod.case_eq_if]

text \<open>
  The files of any run: once the icon has been saved it is the image the script drew, and
  no path but the two of the script is touched.
\<close>

lemma run_files_aux:
  "(case run_script e fs0 of (x, s) \<Rightarrow>
      (E_img_save icon_path \<in> set (trace s) \<longrightarrow> fs s icon_path = Some (ImageFile
             \<lparr>mode = ascii ''RGB'', size_px = (100, 100), background = (73, 109, 137),
                segments = [\<lparr>xy = (20, 50, 80, 50), fill = (255, 255, 0), width = 5\<rparr>,
                            \<lparr>xy = (50, 20, 50, 80), fill = (255, 255, 0), width = 5\<rparr>]\<rparr>))
      \<and> (\<forall>q. q \<noteq> icon_path \<longrightarrow> q \<noteq> file_name \<longrightarrow> fs s q = fs0 q))"
  by (simp add: run_defs)

lemmas run_files = run_files_aux [unfolded prod.case_eq_if]

text \<open>The state in which the statement that embeds the picture is entered.\<close>

lemma before_embed_aux:
  "(case exec e (take 14 script) (init fs0) of (x, s) \<Rightarrow> x = None \<longrightarrow>
      E_img_save icon_path \<in> set (trace s) \<and> fs s icon_path = Some (ImageFile
             \<lparr>mode = ascii ''RGB'', size_px = (100, 100), background = (73, 109, 137),
                segments = [\<lparr>xy = (20, 50, 80, 50), fill = (255, 255, 0), width = 5\<rparr>,
                            \<lparr>xy = (50, 20, 50, 80), fill = (255, 255, 0), width = 5\<rparr>]\<rparr>))"
  by (simp add: run_defs)

lemmas before_embed = before_embed_aux [unfolded prod.case_eq_if, rule_format]

text \<open>The run in the quiet environment, from an empty directory, reaches the end.\<close>

lemma quiet_run: "fst (run_script quiet_env Map.empty) = None"
  by (simp add: run_completes_iff quiet_env_def ascii_def)

lemma quiet_run_pair:
  "run_script quiet_env Map.empty = (None, snd (run_script quiet_env Map.empty))"
  using quiet_run by (simp add: prod_eq_iff)

lemma paths_distinct: "icon_path \<noteq> file_name" "file_name \<noteq> icon_path"
  by (simp_all add: icon_path_def file_name_def ascii_def)

text \<open>A run is the run of its first \<open>k\<close> statements, then of the rest.\<close>

lemma run_split:
  "run_script e fs0 =
     (case exec e (take k script) (init fs0) of
        (None, s) \<Rightarrow> exec e (drop k script) s
      | (Some x, s) \<Rightarrow> (Some x, s))"
  unfolding run_script_def
  using exec_append [of e "take k script" "drop k script" "init fs0"] by simp

lemma run_monitor_aux:
  "(case run_script e fs0 of (x, s) \<Rightarrow> embeds_after_save [] (trace s))"
  by (simp add: run_defs)

lemmas run_monitor = run_monitor_aux [unfolded prod.case_eq_if]

lemma quiet_prefix: "fst (exec quiet_env (take 14 script) (init Map.empty)) = None"
  by (simp add: run_defs quiet_env_def)

lemma quiet_saved:
  "E_img_save icon_path \<in> set (trace (snd (run_script quiet_env Map.empty)))"
  using run_complete [OF quiet_run] by simp

lemma quiet_run_any: "fst (run_script quiet_env fs0) = None"
  by (simp add: run_completes_iff quiet_env_def ascii_def)

text \<open>
  What each statement of the document does to the number of blocks: the three kinds of
  append add one, a new document has none, adding a run leaves it as it is.
\<close>

lemma Document_empty:
  "Document e s = Inr s' \<Longrightarrow> map_option blocks (doc s') = Some []"
  by (auto simp: Document_def lib_call_def split: if_splits)

lemma add_heading_appends:
  "add_heading t l e s = Inr s' \<Longrightarrow>
     map_option (length \<circ> blocks) (doc s') = map_option (Suc \<circ> length \<circ> blocks) (doc s)"
  by (auto simp: add_heading_def lib_call_def split: if_splits option.splits)

lemma add_paragraph_appends:
  "add_paragraph t st e s = Inr s' \<Longrightarrow>
     map_option (length \<circ> blocks) (doc s') = map_option (Suc \<circ> length \<circ> blocks) (doc s)"
  by (auto simp: add_paragraph_def append_paragraph_def lib_call_def
           split: if_splits option.splits)

lemma p_add_paragraph_appends:
  "p_add_paragraph t st e s = Inr s' \<Longrightarrow>
     map_option (length \<circ> blocks) (doc s') = map_option (Suc \<circ> length \<circ> blocks) (doc s)"
  by (auto simp: p_add_paragraph_def append_paragraph_def lib_call_def
           split: if_splits option.splits)

lemma add_picture_appends:
  "add_picture f w e s = Inr s' \<Longrightarrow>
     map_option (length \<circ> blocks) (doc s') = map_option (Suc \<circ> length \<circ> blocks) (doc s)"
  by (auto simp: add_picture_def lib_call_def
           split: if_splits option.splits file_content.splits)

lemma p_add_run_bold_keeps_blocks:
  "p_add_run_bold t b e s = Inr s' \<Longrightarrow>
     map_option (length \<circ> blocks) (doc s') = map_option (length \<circ> blocks) (doc s)"
  by (auto simp: p_add_run_bold_def lib_call_def split: if_splits option.splits)

lemma styles_of_take:
  "set (map style_passed (take n evs)) \<subseteq> set (map style_passed evs)"
  using set_take_subset [of n evs] by auto

text \<open>
  A run that reaches the end has completed every initial piece of the script; the states
  after \<^verbatim>\<open>Document()\<close>, around the statement that adds the run, and on entry to
  \<^verbatim>\<open>doc.save\<close>.
\<close>

lemma prefix_completes_fst:
  assumes "fst (run_script e fs0) = None"
  shows "fst (exec e (take k script) (init fs0)) = None"
  using assms run_split [of e fs0 k] by (auto split: prod.splits option.splits)

lemma prefix_completes:
  assumes "fst (run_script e fs0) = None"
  shows "exec e (take k script) (init fs0) = (None, snd (exec e (take k script) (init fs0)))"
  using prefix_completes_fst [OF assms, of k] by (simp add: prod_eq_iff)

lemma after_Document_aux:
  "(case exec e (take 9 script) (init fs0) of (x, s) \<Rightarrow> x = None \<longrightarrow>
      last (trace s) = E_Document \<and> map_option blocks (doc s) = Some [])"
  by (simp add: run_defs)

lemmas after_Document = after_Document_aux [unfolded prod.case_eq_if, rule_format]

lemma before_add_run_aux:
  "(case exec e (take 11 script) (init fs0) of (x, s) \<Rightarrow> x = None \<longrightarrow>
      map_option blocks (doc s) = Some
        [Heading 0
           [\<lparr>rtext = ascii ''YUUKA '' @ [0x6D4B, 0x8BD5, 0x6587, 0x6863], bold = None\<rparr>],
         Paragraph None
           [\<lparr>rtext = [0x8001, 0x5E08, 0xFF0C, 0x8FD9, 0x662F, 0x4E3A, 0x60A8, 0x751F,
                      0x6210, 0x7684, 0x6D4B, 0x8BD5, 0x6587, 0x6863, 0x3002],
              bold = None\<rparr>]])"
  by (simp add: run_defs)

lemmas before_add_run = before_add_run_aux [unfolded prod.case_eq_if, rule_format]

lemma after_add_run_aux:
  "(case exec e (take 12 script) (init fs0) of (x, s) \<Rightarrow> x = None \<longrightarrow>
      last (trace s) = E_add_run \<and>
      map_option blocks (doc s) = Some
        [Heading 0
           [\<lparr>rtext = ascii ''YUUKA '' @ [0x6D4B, 0x8BD5, 0x6587, 0x6863], bold = None\<rparr>],
         Paragraph None
           [\<lparr>rtext = [0x8001, 0x5E08, 0xFF0C, 0x8FD9, 0x662F, 0x4E3A, 0x60A8, 0x751F,
                      0x6210, 0x7684, 0x6D4B, 0x8BD5, 0x6587, 0x6863, 0x3002],
              bold = None\<rparr>,
            \<lparr>rtext = ascii '' '' @ [0x8FD9, 0x662F, 0x4E00, 0x4E2A, 0x52A0, 0x7C97,
                      0x7684, 0x6D4B, 0x8BD5, 0x6587, 0x672C, 0x3002],
              bold = Some True\<rparr>]])"
  by (simp add: run_defs)

lemmas after_add_run = after_add_run_aux [unfolded prod.case_eq_if, rule_format]

lemma before_save_aux:
  "(case exec e (take 17 script) (init fs0) of (x, s) \<Rightarrow> x = None \<longrightarrow>
      fs s file_name = fs0 file_name \<and> filter doc_serialize (trace s) = []
      \<and> length (filter doc_append (trace s)) = 7
      \<and> map_option blocks (doc s) = Some
             [Heading 0
                [\<lparr>rtext = ascii ''YUUKA '' @ [0x6D4B, 0x8BD5, 0x6587, 0x6863], bold = None\<rparr>],
              Paragraph None
                [\<lparr>rtext = [0x8001, 0x5E08, 0xFF0C, 0x8FD9, 0x662F, 0x4E3A, 0x60A8, 0x751F,
                           0x6210, 0x7684, 0x6D4B, 0x8BD5, 0x6587, 0x6863, 0x3002],
                   bold = None\<rparr>,
                 \<lparr>rtext = ascii '' '' @ [0x8FD9, 0x662F, 0x4E00, 0x4E2A, 0x52A0, 0x7C97,
                           0x7684, 0x6D4B, 0x8BD5, 0x6587, 0x672C, 0x3002],
                   bold = Some True\<rparr>],
              Heading 1 [\<lparr>rtext = [0x529F, 0x80FD, 0x6F14, 0x793A], bold = None\<rparr>],
              Paragraph (Some (ascii ''List Bullet''))
                [\<lparr>rtext = [0x4E0B, 0x9762, 0x5C55, 0x793A, 0x4E86, 0x5982, 0x4F55, 0x63D2,
                           0x5165, 0x56FE, 0x6807, 0xFF1A],
                   bold = None\<rparr>],
              Picture
                \<lparr>mode = ascii ''RGB'', size_px = (100, 100), background = (73, 109, 137),
                   segments = [\<lparr>xy = (20, 50, 80, 50), fill = (255, 255, 0), width = 5\<rparr>,
                               \<lparr>xy = (50, 20, 50, 80), fill = (255, 255, 0), width = 5\<rparr>]\<rparr>
                914400,
              Paragraph (Some (ascii ''Normal''))
                [\<lparr>rtext = [0x6587, 0x6863, 0x751F, 0x6210, 0x6982, 0x7387, 0xFF1A]
                           @ ascii ''100%'',
                   bold = None\<rparr>],
              Paragraph (Some (ascii ''Normal''))
                [\<lparr>rtext = [0x9A8C, 0x7B97, 0x7ED3, 0x679C, 0xFF1A, 0x4E00, 0x5207, 0x6B63,
                           0x5E38, 0x3002],
                   bold = None\<rparr>]])"
  by (simp add: run_defs)

lemmas before_save = before_save_aux [unfolded prod.case_eq_if, rule_format]

section \<open>The claims\<close>

text \<open>
  C1. After a run that reaches the end of the script, the document consists of exactly
  these blocks, in this order: a heading of level 0 with the title; a paragraph of two
  runs, the greeting and then the bold text with its bold flag set; a heading of level 1;
  a paragraph of style List Bullet; the picture, which is the image stored in the icon
  file, at the width of one inch; two paragraphs of style Normal. There is no other block.
\<close>

theorem document_blocks:
  assumes "run_script e fs0 = (None, s)"
  shows "\<exists>i. fs s icon_path = Some (ImageFile i) \<and>
     map_option blocks (doc s) = Some
       [Heading 0
          [\<lparr>rtext = ascii ''YUUKA '' @ [0x6D4B, 0x8BD5, 0x6587, 0x6863], bold = None\<rparr>],
        Paragraph None
          [\<lparr>rtext = [0x8001, 0x5E08, 0xFF0C, 0x8FD9, 0x662F, 0x4E3A, 0x60A8, 0x751F,
                     0x6210, 0x7684, 0x6D4B, 0x8BD5, 0x6587, 0x6863, 0x3002],
             bold = None\<rparr>,
           \<lparr>rtext = ascii '' '' @ [0x8FD9, 0x662F, 0x4E00, 0x4E2A, 0x52A0, 0x7C97,
                     0x7684, 0x6D4B, 0x8BD5, 0x6587, 0x672C, 0x3002],
             bold = Some True\<rparr>],
        Heading 1 [\<lparr>rtext = [0x529F, 0x80FD, 0x6F14, 0x793A], bold = None\<rparr>],
        Paragraph (Some (ascii ''List Bullet''))
          [\<lparr>rtext = [0x4E0B, 0x9762, 0x5C55, 0x793A, 0x4E86, 0x5982, 0x4F55, 0x63D2,
                     0x5165, 0x56FE, 0x6807, 0xFF1A],
             bold = None\<rparr>],
        Picture i (Inches 1.0),
        Paragraph (Some (ascii ''Normal''))
          [\<lparr>rtext = [0x6587, 0x6863, 0x751F, 0x6210, 0x6982, 0x7387, 0xFF1A] @ ascii ''100%'',
             bold = None\<rparr>],
        Paragraph (Some (ascii ''Normal''))
          [\<lparr>rtext = [0x9A8C, 0x7B97, 0x7ED3, 0x679C, 0xFF1A, 0x4E00, 0x5207, 0x6B63,
                     0x5E38, 0x3002],
             bold = None\<rparr>]]"
  using run_complete [of e fs0] assms by (simp add: Inches_def paths_distinct)

theorem document_blocks_witness:
  "fst (run_script quiet_env Map.empty) = None \<and>
   map_option (length \<circ> blocks) (doc (snd (run_script quiet_env Map.empty))) = Some 7"
  using document_blocks [OF quiet_run_pair] quiet_run
  by (auto simp: option.map_comp [symmetric])

text \<open>
  C2. The statement that saves the icon (number 7) comes before the statement that embeds
  it (number 14). Whenever the first fourteen statements have completed, which is when the
  embed statement is entered, the save is in the log and the icon file is on disk. In the
  log of every run each embed of a path follows a save to that path, and no run ends with
  the icon file missing.
\<close>

theorem icon_saved_before_embed:
  "script ! 7 = img_save icon_path \<and> script ! 14 = add_picture icon_path (Inches 1.0)
   \<and> (\<forall>s. exec e (take 14 script) (init fs0) = (None, s) \<longrightarrow>
          E_img_save icon_path \<in> set (trace s) \<and> fs s icon_path \<noteq> None)
   \<and> embeds_after_save [] (trace (snd (run_script e fs0)))
   \<and> fst (run_script e fs0) \<noteq> Some (FileNotFoundError icon_path)"
proof -
  have a: "script ! 7 = img_save icon_path \<and> script ! 14 = add_picture icon_path (Inches 1.0)"
    by (simp add: script_def)
  have b: "\<forall>s. exec e (take 14 script) (init fs0) = (None, s) \<longrightarrow>
          E_img_save icon_path \<in> set (trace s) \<and> fs s icon_path \<noteq> None"
    using before_embed [of e fs0] by auto
  have c: "fst (run_script e fs0) \<noteq> Some (FileNotFoundError icon_path)"
    using run_failed [of e fs0] by auto
  from a b c run_monitor [of e fs0] show ?thesis by blast
qed

theorem icon_saved_before_embed_witness:
  "fst (exec quiet_env (take 14 script) (init Map.empty)) = None
   \<and> fs (snd (exec quiet_env (take 14 script) (init Map.empty))) icon_path \<noteq> None"
proof -
  have h: "exec quiet_env (take 14 script) (init Map.empty)
           = (None, snd (exec quiet_env (take 14 script) (init Map.empty)))"
    using quiet_prefix by (simp add: prod_eq_iff)
  from icon_saved_before_embed [of quiet_env Map.empty] h quiet_prefix
  show ?thesis by blast
qed

text \<open>
  C3. In every run in which the icon has been saved, the icon file holds an image of
  100 by 100 pixels with the one background colour (73, 109, 137) and exactly two line
  segments, each in a colour different from the background, and some point of the canvas
  lies on both segments.
\<close>

theorem icon_image:
  assumes "run_script e fs0 = (x, s)" and "E_img_save icon_path \<in> set (trace s)"
  shows "\<exists>i a b. fs s icon_path = Some (ImageFile i) \<and> size_px i = (100, 100)
           \<and> background i = (73, 109, 137) \<and> segments i = [a, b]
           \<and> fill a \<noteq> background i \<and> fill b \<noteq> background i
           \<and> (\<exists>pt. on_segment (xy a) pt \<and> on_segment (xy b) pt \<and> in_canvas (size_px i) pt)"
proof -
  let ?a = "\<lparr>xy = (20, 50, 80, 50), fill = (255, 255, 0), width = 5\<rparr> :: line_seg"
  let ?b = "\<lparr>xy = (50, 20, 50, 80), fill = (255, 255, 0), width = 5\<rparr> :: line_seg"
  let ?i = "\<lparr>mode = ascii ''RGB'', size_px = (100, 100), background = (73, 109, 137),
              segments = [?a, ?b]\<rparr>"
  have f: "fs s icon_path = Some (ImageFile ?i)"
    using run_files [of e fs0] assms by simp
  have g: "on_segment (xy ?a) (50, 50) \<and> on_segment (xy ?b) (50, 50)
           \<and> in_canvas (size_px ?i) (50, 50)"
    by simp
  have c: "fill ?a \<noteq> background ?i \<and> fill ?b \<noteq> background ?i"
    by simp
  have d: "size_px ?i = (100, 100) \<and> background ?i = (73, 109, 137) \<and> segments ?i = [?a, ?b]"
    by simp
  from f g c d show ?thesis by blast
qed

theorem icon_image_witness:
  "\<exists>i. fs (snd (run_script quiet_env Map.empty)) icon_path = Some (ImageFile i)
        \<and> size_px i = (100, 100) \<and> length (segments i) = 2"
proof -
  from icon_image [OF surjective_pairing quiet_saved]
  obtain i a b where "fs (snd (run_script quiet_env Map.empty)) icon_path = Some (ImageFile i)"
    and "size_px i = (100, 100)" and "segments i = [a, b]"
    by blast
  then show ?thesis by simp
qed

text \<open>
  C4. In a run that reaches the end, the document is created once, and created empty: the
  state after statement 8, \<^verbatim>\<open>Document()\<close>, has no block. The log is the creation, then
  exactly seven statements that append a block, then the one serialization, then the
  print, with no serialization before all seven appends are done. The state in which
  \<^verbatim>\<open>doc.save\<close> is entered holds the seven blocks and the document file is still
  untouched; after the run the file holds exactly these seven blocks. The one statement
  that adds a run is not an append to the document: it turns the paragraph of one run
  into the same paragraph with two runs and leaves the document at two blocks, and adding
  a run never changes the number of blocks.
\<close>

theorem seven_appends_one_save:
  assumes "run_script e fs0 = (None, s)"
  shows "count_list (trace s) E_Document = 1
         \<and> (\<forall>e' s1 s2. Document e' s1 = Inr s2 \<longrightarrow> map_option blocks (doc s2) = Some [])
         \<and> length (filter doc_append (trace s)) = 7
         \<and> map_option (length \<circ> blocks) (doc s) = Some 7
         \<and> length (filter doc_serialize (trace s)) = 1
         \<and> count_list (trace s) E_add_run = 1 \<and> \<not> doc_append E_add_run
         \<and> (\<forall>t b e' s1 s2. p_add_run_bold t b e' s1 = Inr s2 \<longrightarrow>
               map_option (length \<circ> blocks) (doc s2) = map_option (length \<circ> blocks) (doc s1))
         \<and> (\<exists>a b. trace s = a @ E_Document # b @ [E_doc_save file_name, E_print]
               \<and> filter doc_append a = [] \<and> length (filter doc_append b) = 7
               \<and> filter doc_serialize (a @ b) = [] \<and> E_Document \<notin> set (a @ b))
         \<and> (\<exists>s9. exec e (take 9 script) (init fs0) = (None, s9)
               \<and> last (trace s9) = E_Document \<and> map_option blocks (doc s9) = Some [])
         \<and> (\<exists>s11 s12 h r1 r2.
               exec e (take 11 script) (init fs0) = (None, s11)
               \<and> exec e (take 12 script) (init fs0) = (None, s12)
               \<and> last (trace s12) = E_add_run
               \<and> map_option blocks (doc s11) = Some [h, Paragraph None [r1]]
               \<and> map_option blocks (doc s12) = Some [h, Paragraph None [r1, r2]])
         \<and> (\<exists>s17 b. exec e (take 17 script) (init fs0) = (None, s17)
               \<and> fs s17 file_name = fs0 file_name \<and> filter doc_serialize (trace s17) = []
               \<and> length (filter doc_append (trace s17)) = 7
               \<and> map_option blocks (doc s17) = Some b \<and> length b = 7
               \<and> map_option blocks (doc s) = Some b \<and> fs s file_name = Some (DocFile b))"
proof -
  have s: "s = snd (run_script e fs0)" and n: "fst (run_script e fs0) = None"
    using assms by simp_all
  note pc = prefix_completes [OF n]
  have a: "count_list (trace s) E_Document = 1 \<and> length (filter doc_append (trace s)) = 7
           \<and> map_option (length \<circ> blocks) (doc s) = Some 7
           \<and> length (filter doc_serialize (trace s)) = 1
           \<and> count_list (trace s) E_add_run = 1 \<and> \<not> doc_append E_add_run"
    unfolding s run_complete [OF n] by simp
  have t: "trace s =
      [E_import (ascii ''docx''), E_import (ascii ''docx.shared''), E_import (ascii ''PIL''),
       E_Image_new, E_Draw, E_line, E_line, E_img_save icon_path]
      @ E_Document #
      [E_add_heading, E_add_paragraph None, E_add_run, E_add_heading,
       E_add_paragraph (Some (ascii ''List Bullet'')), E_add_picture icon_path,
       E_add_paragraph (Some (ascii ''Normal'')), E_add_paragraph (Some (ascii ''Normal''))]
      @ [E_doc_save file_name, E_print]"
    unfolding s run_complete [OF n] by simp
  have b: "\<exists>a b. trace s = a @ E_Document # b @ [E_doc_save file_name, E_print]
               \<and> filter doc_append a = [] \<and> length (filter doc_append b) = 7
               \<and> filter doc_serialize (a @ b) = [] \<and> E_Document \<notin> set (a @ b)"
    apply (rule exI [of _ "[E_import (ascii ''docx''), E_import (ascii ''docx.shared''),
       E_import (ascii ''PIL''), E_Image_new, E_Draw, E_line, E_line, E_img_save icon_path]"])
    apply (rule exI [of _ "[E_add_heading, E_add_paragraph None, E_add_run, E_add_heading,
       E_add_paragraph (Some (ascii ''List Bullet'')), E_add_picture icon_path,
       E_add_paragraph (Some (ascii ''Normal'')), E_add_paragraph (Some (ascii ''Normal''))]"])
    apply (rule conjI)
     apply (rule t)
    apply simp
    done
  have c: "\<exists>s9. exec e (take 9 script) (init fs0) = (None, s9)
               \<and> last (trace s9) = E_Document \<and> map_option blocks (doc s9) = Some []"
    using pc [of 9] after_Document [of e fs0] by (metis fst_conv)
  have d: "\<exists>s11 s12 h r1 r2.
               exec e (take 11 script) (init fs0) = (None, s11)
               \<and> exec e (take 12 script) (init fs0) = (None, s12)
               \<and> last (trace s12) = E_add_run
               \<and> map_option blocks (doc s11) = Some [h, Paragraph None [r1]]
               \<and> map_option blocks (doc s12) = Some [h, Paragraph None [r1, r2]]"
    using pc [of 11] pc [of 12] before_add_run [of e fs0] after_add_run [of e fs0]
    by (metis fst_conv)
  have f: "\<exists>s17 b. exec e (take 17 script) (init fs0) = (None, s17)
               \<and> fs s17 file_name = fs0 file_name \<and> filter doc_serialize (trace s17) = []
               \<and> length (filter doc_append (trace s17)) = 7
               \<and> map_option blocks (doc s17) = Some b \<and> length b = 7
               \<and> map_option blocks (doc s) = Some b \<and> fs s file_name = Some (DocFile b)"
  proof -
    let ?s17 = "snd (exec e (take 17 script) (init fs0))"
    have n17: "fst (exec e (take 17 script) (init fs0)) = None"
      using pc [of 17] by (metis fst_conv)
    note bs = before_save [OF n17]
    have g1: "map_option blocks (doc s) = map_option blocks (doc ?s17)"
      unfolding s run_complete [OF n] by (simp add: bs)
    have g2: "fs s file_name = map_option DocFile (map_option blocks (doc s))"
      unfolding s run_complete [OF n] by (simp add: paths_distinct)
    note g = g1 g2
    obtain b where b: "map_option blocks (doc ?s17) = Some b" and lb: "length b = 7"
      using bs by simp
    from pc [of 17] bs g b lb show ?thesis by auto
  qed
  from a b c d f Document_empty p_add_run_bold_keeps_blocks show ?thesis by blast
qed

theorem seven_appends_one_save_witness:
  "fst (run_script quiet_env Map.empty) = None
   \<and> length (filter doc_append (trace (snd (run_script quiet_env Map.empty)))) = 7
   \<and> length (filter doc_serialize (trace (snd (run_script quiet_env Map.empty)))) = 1"
  using seven_appends_one_save [OF quiet_run_pair] quiet_run by blast

text \<open>
  C5. A run that reaches the end writes exactly two files, the image at
  \<^verbatim>\<open>test_icon.png\<close> and the document at \<^verbatim>\<open>Test_Document.docx\<close>, two different
  paths; every other path of the file system is as it was before the run.
\<close>

theorem two_files_written:
  assumes "run_script e fs0 = (None, s)"
  shows "\<exists>i b. fs s = fs0(icon_path \<mapsto> ImageFile i, file_name \<mapsto> DocFile b)
           \<and> icon_path = ascii ''test_icon.png'' \<and> file_name = ascii ''Test_Document.docx''
           \<and> icon_path \<noteq> file_name
           \<and> List.map_filter file_written (trace s) = [icon_path, file_name]
           \<and> (\<forall>q. q \<noteq> icon_path \<longrightarrow> q \<noteq> file_name \<longrightarrow> fs s q = fs0 q)"
proof -
  have s: "s = snd (run_script e fs0)" and n: "fst (run_script e fs0) = None"
    using assms by simp_all
  have a: "\<exists>i b. fs s = fs0(icon_path \<mapsto> ImageFile i, file_name \<mapsto> DocFile b)"
    unfolding s run_complete [OF n] by simp (intro exI, rule refl)
  have b: "List.map_filter file_written (trace s) = [icon_path, file_name]"
    unfolding s run_complete [OF n] by (simp add: List.map_filter_simps)
  have c: "\<forall>q. q \<noteq> icon_path \<longrightarrow> q \<noteq> file_name \<longrightarrow> fs s q = fs0 q"
    using run_files [of e fs0] s by simp
  from a b c paths_distinct(1) icon_path_def file_name_def show ?thesis by blast
qed

theorem two_files_written_witness:
  "fst (run_script quiet_env Map.empty) = None
   \<and> dom (fs (snd (run_script quiet_env Map.empty))) = {icon_path, file_name}"
proof -
  from two_files_written [OF quiet_run_pair]
  obtain i b where "fs (snd (run_script quiet_env Map.empty))
      = Map.empty(icon_path \<mapsto> ImageFile i, file_name \<mapsto> DocFile b)"
    by blast
  then show ?thesis using quiet_run by auto
qed

text \<open>
  C6. The claim says the line is printed if and only if the serialization succeeds. It is
  not so when the \<^verbatim>\<open>print\<close> itself fails: in the environment where only statement 18
  fails, the document has been saved and is on disk, nothing is printed, and the run ends
  with the exception of the \<^verbatim>\<open>print\<close>.
\<close>

theorem confirmation_line_counterexample:
  "E_doc_save file_name \<in> set (trace (snd (run_script print_fails_env Map.empty)))
   \<and> fs (snd (run_script print_fails_env Map.empty)) file_name \<noteq> None
   \<and> stdout (snd (run_script print_fails_env Map.empty)) = []
   \<and> fst (run_script print_fails_env Map.empty) = Some (LibFailure 18)"
  by (simp add: run_defs print_fails_env_def)

text \<open>
  C6, as amended. A run prints nothing or the one line made of
  \<^verbatim>\<open>Successfully generated\<close>, a space and the document's file name. The line is printed
  exactly when the run ends without an exception, and then the document has been saved:
  a successful serialization is necessary for the line, not sufficient, since the
  document is also saved when only the \<^verbatim>\<open>print\<close> fails. The line arrives on standard
  output exactly when, moreover, standard output is open; a run without exception exits
  with status 0, or 120 when the line is lost in the flush at exit. A run that ends with
  an exception has printed nothing and exits with status 1; it stopped at the failing
  statement, the exception is that statement's own, and an icon file already written
  stays where it is.
\<close>

theorem confirmation_line:
  assumes "run_script e fs0 = (x, s)"
  shows "(stdout s = [] \<or> stdout s = [ascii ''Successfully generated '' @ file_name])
       \<and> (stdout s = [ascii ''Successfully generated '' @ file_name] \<longleftrightarrow> x = None)
       \<and> (stdout s = [ascii ''Successfully generated '' @ file_name] \<longrightarrow>
             E_doc_save file_name \<in> set (trace s) \<and> fs s file_name \<noteq> None)
       \<and> (E_doc_save file_name \<in> set (trace s) \<longleftrightarrow> x = None \<or> x = Some (LibFailure 18))
       \<and> (delivered e s = [] \<or> delivered e s = [ascii ''Successfully generated '' @ file_name])
       \<and> (delivered e s = [ascii ''Successfully generated '' @ file_name]
             \<longleftrightarrow> x = None \<and> sink e = Sink_open)
       \<and> (x = None \<longrightarrow>
             exit_status e (x, s) = (if sink e = Sink_flush_fails then 120 else 0))
       \<and> (x \<noteq> None \<longrightarrow> stdout s = [] \<and> delivered e s = [] \<and> exit_status e (x, s) = 1
             \<and> length (trace s) < 19
             \<and> (x = Some (LibFailure (length (trace s)))
                \<or> x = Some (KeyError (ascii ''Title''))
                \<or> x = Some (KeyError (ascii ''Heading 1''))
                \<or> x = Some (KeyError (ascii ''List Bullet''))
                \<or> x = Some (KeyError (ascii ''Normal'')))
             \<and> (E_img_save icon_path \<in> set (trace s) \<longrightarrow> fs s icon_path \<noteq> None))"
proof -
  let ?line = "ascii ''Successfully generated '' @ file_name"
  have s: "s = snd (run_script e fs0)" and x: "x = fst (run_script e fs0)"
    using assms by simp_all
  have ok: "x = None \<longrightarrow>
      stdout s = [?line] \<and> E_doc_save file_name \<in> set (trace s) \<and> fs s file_name \<noteq> None"
  proof
    assume "x = None"
    then have n: "fst (run_script e fs0) = None" using x by simp
    show "stdout s = [?line] \<and> E_doc_save file_name \<in> set (trace s) \<and> fs s file_name \<noteq> None"
      unfolding s run_complete [OF n] by (simp add: file_name_def ascii_def)
  qed
  have bad: "x \<noteq> None \<longrightarrow> stdout s = [] \<and> length (trace s) < 19
      \<and> (E_doc_save file_name \<in> set (trace s) \<longleftrightarrow> x = Some (LibFailure 18))
      \<and> (x = Some (LibFailure (length (trace s)))
         \<or> x = Some (KeyError (ascii ''Title''))
         \<or> x = Some (KeyError (ascii ''Heading 1''))
         \<or> x = Some (KeyError (ascii ''List Bullet''))
         \<or> x = Some (KeyError (ascii ''Normal'')))"
    using run_failed [of e fs0] s x by auto
  have keep: "E_img_save icon_path \<in> set (trace s) \<longrightarrow> fs s icon_path \<noteq> None"
    using run_files [of e fs0] s by simp
  have ne: "[?line] \<noteq> []"
    by simp
  have a: "(stdout s = [] \<or> stdout s = [?line]) \<and> (stdout s = [?line] \<longleftrightarrow> x = None)
       \<and> (stdout s = [?line] \<longrightarrow> E_doc_save file_name \<in> set (trace s) \<and> fs s file_name \<noteq> None)
       \<and> (E_doc_save file_name \<in> set (trace s) \<longleftrightarrow> x = None \<or> x = Some (LibFailure 18))"
    using ok bad ne by metis
  have dl: "(delivered e s = [] \<or> delivered e s = [?line])
       \<and> (delivered e s = [?line] \<longleftrightarrow> x = None \<and> sink e = Sink_open)"
    using a ne by (cases "sink e") (auto simp: delivered_def)
  have ex0: "x = None \<longrightarrow>
       exit_status e (x, s) = (if sink e = Sink_flush_fails then 120 else 0)"
    using ok by (auto simp: exit_status_def)
  have ex1: "x \<noteq> None \<longrightarrow> delivered e s = [] \<and> exit_status e (x, s) = 1"
    using bad by (cases "sink e") (auto simp: delivered_def exit_status_def)
  from a dl ex0 ex1 bad keep show ?thesis by blast
qed

theorem confirmation_line_witness:
  "stdout (snd (run_script quiet_env Map.empty)) = [ascii ''Successfully generated '' @ file_name]
   \<and> delivered quiet_env (snd (run_script quiet_env Map.empty))
        = [ascii ''Successfully generated '' @ file_name]
   \<and> exit_status quiet_env (run_script quiet_env Map.empty) = 0"
proof -
  have k: "sink quiet_env = Sink_open" by (simp add: quiet_env_def)
  from confirmation_line [OF quiet_run_pair] k quiet_run_pair show ?thesis by simp
qed

text \<open>
  C7. Any two runs that reach the end, in whatever environments and from whatever file
  systems, build the same blocks (texts, styles, bold flags and order), write the same
  document and the same icon, and print the same line.
\<close>

theorem deterministic_content:
  assumes "run_script e1 f1 = (None, s1)" and "run_script e2 f2 = (None, s2)"
  shows "map_option blocks (doc s1) = map_option blocks (doc s2)
         \<and> fs s1 file_name = fs s2 file_name \<and> fs s1 icon_path = fs s2 icon_path
         \<and> stdout s1 = stdout s2 \<and> trace s1 = trace s2"
proof -
  have a: "s1 = snd (run_script e1 f1)" and b: "fst (run_script e1 f1) = None"
    using assms(1) by simp_all
  have c: "s2 = snd (run_script e2 f2)" and d: "fst (run_script e2 f2) = None"
    using assms(2) by simp_all
  show ?thesis
    unfolding a c run_complete [OF b] run_complete [OF d] by (simp add: paths_distinct)
qed

theorem deterministic_content_witness:
  "fst (run_script quiet_env Map.empty) = None
   \<and> fst (run_script quiet_env (Map.empty(icon_path \<mapsto> DocFile []))) = None
   \<and> map_option blocks (doc (snd (run_script quiet_env Map.empty)))
      = map_option blocks (doc (snd (run_script quiet_env (Map.empty(icon_path \<mapsto> DocFile [])))))"
proof -
  have h: "run_script quiet_env (Map.empty(icon_path \<mapsto> DocFile []))
            = (None, snd (run_script quiet_env (Map.empty(icon_path \<mapsto> DocFile []))))"
    using quiet_run_any by (simp add: prod_eq_iff)
  from deterministic_content [OF quiet_run_pair h] quiet_run quiet_run_any
  show ?thesis by blast
qed

text \<open>
  C8. The texts are constants of the program. In a run that reaches the end the runs of
  the seven blocks carry, in order: the title; the greeting and the bold text, which
  starts with a space; the section heading; the bullet text; nothing for the picture; and
  the two closing texts. The line printed is
  \<^verbatim>\<open>Successfully generated Test_Document.docx\<close>.
\<close>

theorem literal_texts:
  assumes "run_script e fs0 = (None, s)"
  shows "map_option (map block_texts \<circ> blocks) (doc s) = Some
           [[ascii ''YUUKA '' @ [0x6D4B, 0x8BD5, 0x6587, 0x6863]],
            [[0x8001, 0x5E08, 0xFF0C, 0x8FD9, 0x662F, 0x4E3A, 0x60A8, 0x751F, 0x6210, 0x7684,
              0x6D4B, 0x8BD5, 0x6587, 0x6863, 0x3002],
             0x20 # [0x8FD9, 0x662F, 0x4E00, 0x4E2A, 0x52A0, 0x7C97, 0x7684, 0x6D4B, 0x8BD5,
              0x6587, 0x672C, 0x3002]],
            [[0x529F, 0x80FD, 0x6F14, 0x793A]],
            [[0x4E0B, 0x9762, 0x5C55, 0x793A, 0x4E86, 0x5982, 0x4F55, 0x63D2, 0x5165, 0x56FE,
              0x6807, 0xFF1A]],
            [],
            [[0x6587, 0x6863, 0x751F, 0x6210, 0x6982, 0x7387, 0xFF1A] @ ascii ''100%''],
            [[0x9A8C, 0x7B97, 0x7ED3, 0x679C, 0xFF1A, 0x4E00, 0x5207, 0x6B63, 0x5E38, 0x3002]]]
         \<and> stdout s = [ascii ''Successfully generated Test_Document.docx'']"
proof -
  have a: "s = snd (run_script e fs0)" and b: "fst (run_script e fs0) = None"
    using assms by simp_all
  show ?thesis
    unfolding a run_complete [OF b] by (simp add: ascii_def)
qed

theorem literal_texts_witness:
  "fst (run_script quiet_env Map.empty) = None
   \<and> stdout (snd (run_script quiet_env Map.empty))
       = [ascii ''Successfully generated Test_Document.docx'']"
  using literal_texts [OF quiet_run_pair] quiet_run by blast

text \<open>
  C9. The two segments of the saved icon are the horizontal one from (20, 50) to (80, 50)
  and the vertical one from (50, 20) to (50, 80), both in colour (255, 255, 0) and of
  width 5. They are perpendicular, they meet in (50, 50) and nowhere else, (50, 50) is
  the centre of the canvas and the midpoint of each segment, and the two have the same
  length: a symmetric plus sign.
\<close>

theorem icon_plus_sign:
  assumes "run_script e fs0 = (x, s)" and "E_img_save icon_path \<in> set (trace s)"
  shows "\<exists>i a b. fs s icon_path = Some (ImageFile i) \<and> segments i = [a, b]
           \<and> xy a = (20, 50, 80, 50) \<and> xy b = (50, 20, 50, 80)
           \<and> fill a = (255, 255, 0) \<and> fill b = (255, 255, 0) \<and> width a = 5 \<and> width b = 5
           \<and> horizontal (xy a) \<and> vertical (xy b) \<and> dot (xy a) (xy b) = 0
           \<and> on_segment (xy a) (50, 50) \<and> on_segment (xy b) (50, 50)
           \<and> (\<forall>pt. on_segment (xy a) pt \<and> on_segment (xy b) pt \<longrightarrow> pt = (50, 50))
           \<and> size_px i = (2 * 50, 2 * 50)
           \<and> twice_mid (xy a) = (2 * 50, 2 * 50) \<and> twice_mid (xy b) = (2 * 50, 2 * 50)
           \<and> len_sq (xy a) = len_sq (xy b)"
proof -
  let ?a = "\<lparr>xy = (20, 50, 80, 50), fill = (255, 255, 0), width = 5\<rparr> :: line_seg"
  let ?b = "\<lparr>xy = (50, 20, 50, 80), fill = (255, 255, 0), width = 5\<rparr> :: line_seg"
  let ?i = "\<lparr>mode = ascii ''RGB'', size_px = (100, 100), background = (73, 109, 137),
              segments = [?a, ?b]\<rparr>"
  have f: "fs s icon_path = Some (ImageFile ?i)"
    using run_files [of e fs0] assms by simp
  have u: "\<forall>pt. on_segment (xy ?a) pt \<and> on_segment (xy ?b) pt \<longrightarrow> pt = (50, 50)"
    by auto
  have g: "segments ?i = [?a, ?b]
           \<and> xy ?a = (20, 50, 80, 50) \<and> xy ?b = (50, 20, 50, 80)
           \<and> fill ?a = (255, 255, 0) \<and> fill ?b = (255, 255, 0) \<and> width ?a = 5 \<and> width ?b = 5
           \<and> horizontal (xy ?a) \<and> vertical (xy ?b) \<and> dot (xy ?a) (xy ?b) = 0
           \<and> on_segment (xy ?a) (50, 50) \<and> on_segment (xy ?b) (50, 50)
           \<and> size_px ?i = (2 * 50, 2 * 50)
           \<and> twice_mid (xy ?a) = (2 * 50, 2 * 50) \<and> twice_mid (xy ?b) = (2 * 50, 2 * 50)
           \<and> len_sq (xy ?a) = len_sq (xy ?b)"
    by simp
  from f u g show ?thesis by blast
qed

theorem icon_plus_sign_witness:
  "\<exists>i a b. fs (snd (run_script quiet_env Map.empty)) icon_path = Some (ImageFile i)
        \<and> segments i = [a, b] \<and> horizontal (xy a) \<and> vertical (xy b)"
proof -
  from icon_plus_sign [OF surjective_pairing quiet_saved]
  obtain i a b where "fs (snd (run_script quiet_env Map.empty)) icon_path = Some (ImageFile i)"
    and "segments i = [a, b]" and "horizontal (xy a)" and "vertical (xy b)"
    by blast
  then show ?thesis by blast
qed

text \<open>
  C10. The only style names a run passes are List Bullet and Normal. A style lookup can
  only fail for one of these two or for Title and Heading 1, the styles the library
  gives the two headings, and only when the template lacks the name. In a template that
  has List Bullet and Normal the lookup of the names the script passes never fails; in a
  template that has the four, as the default template of a new document does, no run ends
  in the failure of a style lookup.
\<close>

theorem styles_found:
  assumes "run_script e fs0 = (x, s)"
  shows "(\<forall>n. Some n \<in> set (map style_passed (trace s)) \<longrightarrow>
             n = ascii ''List Bullet'' \<or> n = ascii ''Normal'')
       \<and> (x = None \<longrightarrow> List.map_filter style_passed (trace s)
             = [ascii ''List Bullet'', ascii ''Normal'', ascii ''Normal''])
       \<and> (\<forall>n. x = Some (KeyError n) \<longrightarrow>
             (n = ascii ''Title'' \<or> n = ascii ''Heading 1''
              \<or> n = ascii ''List Bullet'' \<or> n = ascii ''Normal'')
             \<and> n \<notin> set (default_styles e))
       \<and> (ascii ''List Bullet'' \<in> set (default_styles e)
            \<and> ascii ''Normal'' \<in> set (default_styles e)
          \<longrightarrow> x \<noteq> Some (KeyError (ascii ''List Bullet''))
              \<and> x \<noteq> Some (KeyError (ascii ''Normal'')))
       \<and> (ascii ''Title'' \<in> set (default_styles e)
            \<and> ascii ''Heading 1'' \<in> set (default_styles e)
            \<and> ascii ''List Bullet'' \<in> set (default_styles e)
            \<and> ascii ''Normal'' \<in> set (default_styles e)
          \<longrightarrow> (\<forall>n. x \<noteq> Some (KeyError n)))"
proof -
  have s: "s = snd (run_script e fs0)" and x: "x = fst (run_script e fs0)"
    using assms by simp_all
  let ?full = "[E_import (ascii ''docx''), E_import (ascii ''docx.shared''),
               E_import (ascii ''PIL''), E_Image_new, E_Draw, E_line, E_line,
               E_img_save icon_path, E_Document, E_add_heading, E_add_paragraph None,
               E_add_run, E_add_heading, E_add_paragraph (Some (ascii ''List Bullet'')),
               E_add_picture icon_path, E_add_paragraph (Some (ascii ''Normal'')),
               E_add_paragraph (Some (ascii ''Normal'')), E_doc_save file_name, E_print]"
  have t: "trace s = take (length (trace s)) ?full"
    using run_trace [of e fs0] s by simp
  have sub: "set (map style_passed (trace s)) \<subseteq> set (map style_passed ?full)"
    using styles_of_take [of "length (trace s)" ?full] t by simp
  have full: "set (map style_passed ?full)
                = {None, Some (ascii ''List Bullet''), Some (ascii ''Normal'')}"
    by auto
  have a: "\<forall>n. Some n \<in> set (map style_passed (trace s)) \<longrightarrow>
             n = ascii ''List Bullet'' \<or> n = ascii ''Normal''"
    using sub full by auto
  have b: "x = None \<longrightarrow> List.map_filter style_passed (trace s)
             = [ascii ''List Bullet'', ascii ''Normal'', ascii ''Normal'']"
  proof
    assume "x = None"
    then have n: "fst (run_script e fs0) = None" using x by simp
    show "List.map_filter style_passed (trace s)
             = [ascii ''List Bullet'', ascii ''Normal'', ascii ''Normal'']"
      unfolding s run_complete [OF n] by (simp add: List.map_filter_simps)
  qed
  have c: "\<forall>n. x = Some (KeyError n) \<longrightarrow>
             (n = ascii ''Title'' \<or> n = ascii ''Heading 1''
              \<or> n = ascii ''List Bullet'' \<or> n = ascii ''Normal'')
             \<and> n \<notin> set (default_styles e)"
    using run_failed [of e fs0] x by auto
  from a b c show ?thesis by blast
qed

theorem styles_found_witness:
  "ascii ''Title'' \<in> set (default_styles quiet_env)
   \<and> ascii ''Heading 1'' \<in> set (default_styles quiet_env)
   \<and> ascii ''List Bullet'' \<in> set (default_styles quiet_env)
   \<and> ascii ''Normal'' \<in> set (default_styles quiet_env)
   \<and> fst (run_script quiet_env Map.empty) \<noteq> Some (KeyError (ascii ''Normal''))
   \<and> List.map_filter style_passed (trace (snd (run_script quiet_env Map.empty)))
       = [ascii ''List Bullet'', ascii ''Normal'', ascii ''Normal'']"
proof -
  have h: "ascii ''Title'' \<in> set (default_styles quiet_env)
           \<and> ascii ''Heading 1'' \<in> set (default_styles quiet_env)
           \<and> ascii ''List Bullet'' \<in> set (default_styles quiet_env)
           \<and> ascii ''Normal'' \<in> set (default_styles quiet_env)"
    by (simp add: quiet_env_def)
  from styles_found [OF quiet_run_pair] h quiet_run show ?thesis by simp
qed

end
